theory Spec2Isabelle
  imports Main
begin

section \<open>Python values, exceptions and printed lines\<close>

text \<open>
  The program of \<^verbatim>\<open>main.py\<close> works on what \<^verbatim>\<open>json.loads\<close> returns: \<^verbatim>\<open>None\<close>,
  booleans, unbounded integers, floats, strings, lists and dictionaries with string keys.
  A float is an IEEE 754 binary64 number: \<open>Finite s m e\<close> is \<open>m * 2 ^ e\<close> with the
  sign \<open>s\<close> (\<open>True\<close> for negative), where \<open>m\<close> is odd, or \<open>m\<close> and \<open>e\<close> are \<open>0\<close>;
  the others are the infinities and NaN. A string is a list of characters with
  code points below 256. A dictionary is an association list, the first binding of a key
  being the one that is looked up.
\<close>

datatype pyfloat = Finite bool nat int | Infinite bool | NaN

datatype pyval =
    PNone
  | PBool bool
  | PInt int
  | PFloat pyfloat
  | PStr string
  | PList "pyval list"
  | PDict "(string \<times> pyval) list"

text \<open>
  The exception classes that the modelled code can meet. A class stands for itself and
  its subclasses (\<open>InvalidExpression\<close> also for \<^verbatim>\<open>FunctionNotDefined\<close> and the other
  subclasses of simpleeval). \<open>KeyboardInterrupt\<close> stands for the classes that derive from
  \<^verbatim>\<open>BaseException\<close> and not from \<^verbatim>\<open>Exception\<close>.
\<close>

datatype exn =
    KeyError
  | TypeError
  | IndexError
  | AttributeError
  | ZeroDivisionError
  | OverflowError
  | ValueError
  | JSONDecodeError
  | InvalidExpression
  | RecursionError
  | KeyboardInterrupt

fun is_Exception :: "exn \<Rightarrow> bool" where
  "is_Exception KeyboardInterrupt = False"
| "is_Exception _ = True"

text \<open>
  One constructor for each \<^verbatim>\<open>print\<close> statement of the source; the arguments are the
  values that the f-string interpolates, in the order of the text.
\<close>

datatype line =
    DecodeFailed
    \<comment> \<open>\<^verbatim>\<open>Error: Could not decode model response as JSON\<close>\<close>
  | CallingTool pyval
    \<comment> \<open>\<^verbatim>\<open>Calling tool: {tool}\<close>\<close>
  | ExpressionIs pyval
    \<comment> \<open>\<^verbatim>\<open>Expression: {expression}\<close>\<close>
  | DivisionByZero
    \<comment> \<open>\<^verbatim>\<open>Error: Division by zero is not allowed\<close>\<close>
  | CouldNotEvaluate
    \<comment> \<open>\<^verbatim>\<open>Error: Could not evaluate expression\<close>\<close>
  | UnexpectedError exn
    \<comment> \<open>\<^verbatim>\<open>Error: Unexpected error - {e}\<close>\<close>
  | Converting pyval pyval pyval
    \<comment> \<open>\<^verbatim>\<open>Converting : {value} {from_unit} to {to_unit}\<close>\<close>
  | UnsupportedConversion pyval pyval
    \<comment> \<open>\<^verbatim>\<open>Error: Unsupported conversion - {from_unit} to {to_unit}\<close>\<close>
  | UnknownOperation pyval
    \<comment> \<open>\<^verbatim>\<open>Error: Unknown operation - {operation}\<close>\<close>
  | ExpectsInputs pyval nat nat
    \<comment> \<open>\<^verbatim>\<open>Error: {operation} expects {expected} input(s), got {len(inputs)}\<close>\<close>
  | Performing pyval pyval
    \<comment> \<open>\<^verbatim>\<open>Performing {operation} on {inputs}\<close>\<close>
  | ErrorIs exn
    \<comment> \<open>\<^verbatim>\<open>Error: {e}\<close>\<close>
  | OnlyMath
    \<comment> \<open>\<^verbatim>\<open>I can only handle math questions and conversions\<close>\<close>

text \<open>
  A run of a piece of code: the lines it printed, and either the exception that left it
  (\<open>Inl\<close>) or the value it returned (\<open>Inr\<close>).
\<close>

type_synonym 'a run = "line list \<times> (exn + 'a)"

definition ret :: "'a \<Rightarrow> 'a run" where
  "ret v = ([], Inr v)"

definition raise :: "exn \<Rightarrow> 'a run" where
  "raise e = ([], Inl e)"

definition say :: "line \<Rightarrow> unit run" where
  "say l = ([l], Inr ())"

definition lift :: "exn + 'a \<Rightarrow> 'a run" where
  "lift r = ([], r)"

definition and_then :: "'a run \<Rightarrow> ('a \<Rightarrow> 'b run) \<Rightarrow> 'b run" where
  "and_then m f =
     (case m of
        (out, Inl e) \<Rightarrow> (out, Inl e)
      | (out, Inr v) \<Rightarrow> (case f v of (out', r) \<Rightarrow> (out @ out', r)))"

definition try_then :: "exn + 'a \<Rightarrow> ('a \<Rightarrow> exn + 'b) \<Rightarrow> exn + 'b" where
  "try_then r f = (case r of Inl e \<Rightarrow> Inl e | Inr v \<Rightarrow> f v)"

section \<open>Numbers\<close>

subsection \<open>Rounding to binary64\<close>

text \<open>
  Python's float arithmetic is IEEE 754 binary64 with rounding to nearest, ties to even:
  the result of an operation is the exact result, rounded. \<open>round_double n d e\<close> rounds
  the magnitude \<open>n / d * 2 ^ e\<close> (with \<open>0 < d\<close>) to the nearest float \<open>m * 2 ^ u\<close>;
  \<open>None\<close> is overflow. A float has 53 significant bits; below \<open>2 ^ - 1022\<close> the spacing
  of the floats stays \<open>2 ^ - 1074\<close> (subnormal numbers). The result is in the form kept
  by \<open>Finite\<close>: the mantissa is odd, or both are \<open>0\<close>.
\<close>

fun bits :: "nat \<Rightarrow> nat" where
  "bits n = (if n = 0 then 0 else Suc (bits (n div 2)))"

fun odd_part :: "nat \<Rightarrow> int \<Rightarrow> nat \<times> int" where
  "odd_part m e =
     (if m = 0 then (0, 0)
      else if even m then odd_part (m div 2) (e + 1)
      else (m, e))"

definition floor_log2 :: "nat \<Rightarrow> nat \<Rightarrow> int" where
  \<comment> \<open>the \<open>l\<close> with \<open>2 ^ l \<le> n / d < 2 ^ (l + 1)\<close>, for \<open>0 < n\<close> and \<open>0 < d\<close>\<close>
  "floor_log2 n d =
     (let k = int (bits n) - int (bits d)
      in if (if 0 \<le> k then d * 2 ^ nat k \<le> n else d \<le> n * 2 ^ nat (- k))
         then k else k - 1)"

definition div_half_even :: "nat \<Rightarrow> nat \<Rightarrow> nat" where
  \<comment> \<open>\<open>n / d\<close> rounded to the nearest integer, a tie to the even one\<close>
  "div_half_even n d =
     (let q = n div d; r = n mod d
      in if 2 * r < d then q
         else if d < 2 * r then q + 1
         else if even q then q else q + 1)"

definition round_double :: "nat \<Rightarrow> nat \<Rightarrow> int \<Rightarrow> (nat \<times> int) option" where
  "round_double n d e =
     (if n = 0 then Some (0, 0)
      else
        let u = max (floor_log2 n d + e - 52) (- 1074);
            s = e - u;
            m = (if 0 \<le> s then div_half_even (n * 2 ^ nat s) d
                 else div_half_even n (d * 2 ^ nat (- s)))
        in if 0 \<le> u \<and> 2 ^ 1024 \<le> m * 2 ^ nat u then None
           else Some (odd_part m u))"

definition to_float :: "bool \<Rightarrow> nat \<Rightarrow> nat \<Rightarrow> int \<Rightarrow> pyfloat" where
  \<comment> \<open>a float operation that overflows gives an infinity\<close>
  "to_float s n d e =
     (case round_double n d e of
        Some (m, u) \<Rightarrow> Finite s m u
      | None \<Rightarrow> Infinite s)"

subsection \<open>Float arithmetic\<close>

fun float_neg :: "pyfloat \<Rightarrow> pyfloat" where
  "float_neg (Finite s m e) = Finite (\<not> s) m e"
| "float_neg (Infinite s) = Infinite (\<not> s)"
| "float_neg NaN = NaN"

fun float_mul :: "pyfloat \<Rightarrow> pyfloat \<Rightarrow> pyfloat" where
  "float_mul (Finite s m e) (Finite t n f) = to_float (s \<noteq> t) (m * n) 1 (e + f)"
| "float_mul (Finite s m e) (Infinite t) = (if m = 0 then NaN else Infinite (s \<noteq> t))"
| "float_mul (Infinite s) (Finite t n f) = (if n = 0 then NaN else Infinite (s \<noteq> t))"
| "float_mul (Infinite s) (Infinite t) = Infinite (s \<noteq> t)"
| "float_mul _ _ = NaN"

definition signed :: "bool \<Rightarrow> nat \<Rightarrow> int" where
  "signed s m = (if s then - int m else int m)"

text \<open>
  The sum of two floats is exact over the smaller of the two exponents. A sum that is
  zero is \<open>- 0.0\<close> only when both operands are negative.
\<close>

fun float_add :: "pyfloat \<Rightarrow> pyfloat \<Rightarrow> pyfloat" where
  "float_add (Finite s m e) (Finite t n f) =
     (let g = min e f;
          v = signed s (m * 2 ^ nat (e - g)) + signed t (n * 2 ^ nat (f - g))
      in if v = 0 then Finite (s \<and> t) 0 0 else to_float (v < 0) (nat \<bar>v\<bar>) 1 g)"
| "float_add (Finite s m e) (Infinite t) = Infinite t"
| "float_add (Infinite s) (Finite t n f) = Infinite s"
| "float_add (Infinite s) (Infinite t) = (if s = t then Infinite s else NaN)"
| "float_add _ _ = NaN"

definition float_sub :: "pyfloat \<Rightarrow> pyfloat \<Rightarrow> pyfloat" where
  "float_sub a b = float_add a (float_neg b)"

text \<open>Python raises \<^verbatim>\<open>ZeroDivisionError\<close> for every division of a float by zero.\<close>

fun float_div :: "pyfloat \<Rightarrow> pyfloat \<Rightarrow> exn + pyfloat" where
  "float_div a (Finite t n f) =
     (if n = 0 then Inl ZeroDivisionError
      else case a of
             Finite s m e \<Rightarrow> Inr (to_float (s \<noteq> t) m n (e - f))
           | Infinite s \<Rightarrow> Inr (Infinite (s \<noteq> t))
           | NaN \<Rightarrow> Inr NaN)"
| "float_div (Finite s m e) (Infinite t) = Inr (Finite (s \<noteq> t) 0 0)"
| "float_div _ _ = Inr NaN"

text \<open>
  An integer becomes a float by rounding; an integer too large for a float raises
  \<^verbatim>\<open>OverflowError\<close>. The true division of two integers is rounded once.
\<close>

definition int_to_float :: "int \<Rightarrow> exn + pyfloat" where
  "int_to_float i =
     (case round_double (nat \<bar>i\<bar>) 1 0 of
        Some (m, u) \<Rightarrow> Inr (Finite (i < 0) m u)
      | None \<Rightarrow> Inl OverflowError)"

definition int_truediv :: "int \<Rightarrow> int \<Rightarrow> exn + pyfloat" where
  "int_truediv a b =
     (if b = 0 then Inl ZeroDivisionError
      else case round_double (nat \<bar>a\<bar>) (nat \<bar>b\<bar>) 0 of
             Some (m, u) \<Rightarrow> Inr (Finite ((a < 0) \<noteq> (b < 0)) m u)
           | None \<Rightarrow> Inl OverflowError)"

text \<open>A float literal of the source is the decimal \<open>n / d\<close>, rounded.\<close>

definition float_literal :: "nat \<Rightarrow> nat \<Rightarrow> pyfloat" where
  "float_literal n d = to_float False n d 0"

subsection \<open>The operators on values\<close>

text \<open>
  \<^verbatim>\<open>bool\<close> is a subclass of \<^verbatim>\<open>int\<close>. An operator on two integers is exact; with a float
  on either side the integer is converted first. \<^verbatim>\<open>*\<close> repeats a string or list,
  \<^verbatim>\<open>+\<close> concatenates two strings or two lists; anything else raises \<^verbatim>\<open>TypeError\<close>.
\<close>

datatype num = NInt int | NFloat pyfloat

fun num_of :: "pyval \<Rightarrow> num option" where
  "num_of (PBool b) = Some (NInt (if b then 1 else 0))"
| "num_of (PInt i) = Some (NInt i)"
| "num_of (PFloat f) = Some (NFloat f)"
| "num_of _ = None"

fun as_float :: "num \<Rightarrow> exn + pyfloat" where
  "as_float (NInt i) = int_to_float i"
| "as_float (NFloat f) = Inr f"

fun num_mul :: "num \<Rightarrow> num \<Rightarrow> exn + pyval" where
  "num_mul (NInt i) (NInt j) = Inr (PInt (i * j))"
| "num_mul a b =
     try_then (as_float a) (\<lambda>x. try_then (as_float b) (\<lambda>y. Inr (PFloat (float_mul x y))))"

fun num_add :: "num \<Rightarrow> num \<Rightarrow> exn + pyval" where
  "num_add (NInt i) (NInt j) = Inr (PInt (i + j))"
| "num_add a b =
     try_then (as_float a) (\<lambda>x. try_then (as_float b) (\<lambda>y. Inr (PFloat (float_add x y))))"

fun num_sub :: "num \<Rightarrow> num \<Rightarrow> exn + pyval" where
  "num_sub (NInt i) (NInt j) = Inr (PInt (i - j))"
| "num_sub a b =
     try_then (as_float a) (\<lambda>x. try_then (as_float b) (\<lambda>y. Inr (PFloat (float_sub x y))))"

fun num_truediv :: "num \<Rightarrow> num \<Rightarrow> exn + pyval" where
  "num_truediv (NInt i) (NInt j) = try_then (int_truediv i j) (\<lambda>f. Inr (PFloat f))"
| "num_truediv a b =
     try_then (as_float a) (\<lambda>x. try_then (as_float b) (\<lambda>y.
       try_then (float_div x y) (\<lambda>f. Inr (PFloat f))))"

definition repeat :: "int \<Rightarrow> 'a list \<Rightarrow> 'a list" where
  "repeat n xs = concat (replicate (nat n) xs)"

definition py_mul :: "pyval \<Rightarrow> pyval \<Rightarrow> exn + pyval" where
  "py_mul a b =
     (case (num_of a, num_of b) of
        (Some x, Some y) \<Rightarrow> num_mul x y
      | (Some (NInt n), None) \<Rightarrow>
          (case b of PStr s \<Rightarrow> Inr (PStr (repeat n s))
                   | PList xs \<Rightarrow> Inr (PList (repeat n xs))
                   | _ \<Rightarrow> Inl TypeError)
      | (None, Some (NInt n)) \<Rightarrow>
          (case a of PStr s \<Rightarrow> Inr (PStr (repeat n s))
                   | PList xs \<Rightarrow> Inr (PList (repeat n xs))
                   | _ \<Rightarrow> Inl TypeError)
      | _ \<Rightarrow> Inl TypeError)"

definition py_add :: "pyval \<Rightarrow> pyval \<Rightarrow> exn + pyval" where
  "py_add a b =
     (case (num_of a, num_of b) of
        (Some x, Some y) \<Rightarrow> num_add x y
      | _ \<Rightarrow>
          (case (a, b) of
             (PStr s, PStr t) \<Rightarrow> Inr (PStr (s @ t))
           | (PList xs, PList ys) \<Rightarrow> Inr (PList (xs @ ys))
           | _ \<Rightarrow> Inl TypeError))"

definition py_sub :: "pyval \<Rightarrow> pyval \<Rightarrow> exn + pyval" where
  "py_sub a b =
     (case (num_of a, num_of b) of
        (Some x, Some y) \<Rightarrow> num_sub x y
      | _ \<Rightarrow> Inl TypeError)"

definition py_truediv :: "pyval \<Rightarrow> pyval \<Rightarrow> exn + pyval" where
  "py_truediv a b =
     (case (num_of a, num_of b) of
        (Some x, Some y) \<Rightarrow> num_truediv x y
      | _ \<Rightarrow> Inl TypeError)"

section \<open>Strings\<close>

text \<open>
  \<^verbatim>\<open>str.lower\<close> on code points below 256: the letters \<^verbatim>\<open>A\<close> to \<^verbatim>\<open>Z\<close> and the
  capital letters of Latin-1 (192 to 222 without the multiplication sign 215) move up by 32.
\<close>

definition lower_char :: "char \<Rightarrow> char" where
  "lower_char c =
     (let n = (of_char c :: nat)
      in if (65 \<le> n \<and> n \<le> 90) \<or> (192 \<le> n \<and> n \<le> 222 \<and> n \<noteq> 215)
         then char_of (n + 32) else c)"

definition lower :: "string \<Rightarrow> string" where
  "lower s = map lower_char s"

fun split_on :: "char \<Rightarrow> string \<Rightarrow> string list" where
  \<comment> \<open>\<^verbatim>\<open>s.split(c)\<close>\<close>
  "split_on c [] = [[]]"
| "split_on c (x # xs) =
     (if x = c then [] # split_on c xs
      else case split_on c xs of
             p # ps \<Rightarrow> (x # p) # ps
           | [] \<Rightarrow> [[x]])"

definition rstrip :: "char \<Rightarrow> string \<Rightarrow> string" where
  \<comment> \<open>\<^verbatim>\<open>s.rstrip(c)\<close>\<close>
  "rstrip c s = rev (dropWhile (\<lambda>x. x = c) (rev s))"

fun join :: "string \<Rightarrow> string list \<Rightarrow> string" where
  \<comment> \<open>\<^verbatim>\<open>sep.join(xs)\<close>\<close>
  "join sep [] = []"
| "join sep [x] = x"
| "join sep (x # y # ys) = x @ sep @ join sep (y # ys)"

subsection \<open>Numbers as text\<close>

definition digit :: "nat \<Rightarrow> char" where
  "digit d = ''0123456789abcdef'' ! d"

fun str_nat :: "nat \<Rightarrow> string" where
  "str_nat n = (if n < 10 then [digit n] else str_nat (n div 10) @ [digit (n mod 10)])"

definition str_int :: "int \<Rightarrow> string" where
  "str_int i = (if i < 0 then ''-'' @ str_nat (nat (- i)) else str_nat (nat i))"

text \<open>
  The format \<^verbatim>\<open>.2f\<close> prints the decimal with two places nearest to the exact value of
  the float, a tie going to the even one, and keeps the sign of a negative zero.
\<close>

definition hundredths :: "nat \<Rightarrow> int \<Rightarrow> nat" where
  \<comment> \<open>\<open>m * 2 ^ e * 100\<close>, rounded to an integer\<close>
  "hundredths m e =
     (if 0 \<le> e then m * 2 ^ nat e * 100 else div_half_even (m * 100) (2 ^ nat (- e)))"

fun float_format_2f :: "pyfloat \<Rightarrow> string" where
  "float_format_2f (Finite s m e) =
     (let h = hundredths m e
      in (if s then ''-'' else []) @ str_nat (h div 100) @ ''.''
           @ [digit (h mod 100 div 10), digit (h mod 10)])"
| "float_format_2f (Infinite s) = (if s then ''-inf'' else ''inf'')"
| "float_format_2f NaN = ''nan''"

text \<open>
  \<^verbatim>\<open>f'{x:.2f}'\<close>: an integer (or boolean) is converted to a float first; a string raises
  \<^verbatim>\<open>ValueError\<close>; \<^verbatim>\<open>None\<close>, a list and a dictionary raise \<^verbatim>\<open>TypeError\<close>.
\<close>

fun format_2f :: "pyval \<Rightarrow> exn + string" where
  "format_2f (PFloat f) = Inr (float_format_2f f)"
| "format_2f (PInt i) = try_then (int_to_float i) (\<lambda>f. Inr (float_format_2f f))"
| "format_2f (PBool b) =
     try_then (int_to_float (if b then 1 else 0)) (\<lambda>f. Inr (float_format_2f f))"
| "format_2f (PStr s) = Inl ValueError"
| "format_2f _ = Inl TypeError"

subsection \<open>The \<^verbatim>\<open>repr\<close> of a float\<close>

text \<open>
  \<^verbatim>\<open>repr\<close> of a float is the shortest decimal that rounds back to the float, and the
  nearest to it among those of that length. With the digits \<open>ds\<close> and the float equal to
  \<open>0.ds * 10 ^ decpt\<close>, the exponent form is used when \<open>decpt \<le> - 4\<close> or
  \<open>16 < decpt\<close>.
\<close>

fun decs :: "nat \<Rightarrow> nat" where
  "decs n = (if n = 0 then 0 else Suc (decs (n div 10)))"

definition floor_log10 :: "nat \<Rightarrow> nat \<Rightarrow> int" where
  \<comment> \<open>the \<open>l\<close> with \<open>10 ^ l \<le> n / d < 10 ^ (l + 1)\<close>, for \<open>0 < n\<close> and \<open>0 < d\<close>\<close>
  "floor_log10 n d =
     (let k = int (decs n) - int (decs d)
      in if (if 0 \<le> k then d * 10 ^ nat k \<le> n else d \<le> n * 10 ^ nat (- k))
         then k else k - 1)"

definition rounds_to :: "nat \<Rightarrow> int \<Rightarrow> nat \<Rightarrow> int \<Rightarrow> bool" where
  \<comment> \<open>the decimal \<open>c * 10 ^ p\<close> rounds to the float \<open>m * 2 ^ e\<close>\<close>
  "rounds_to c p m e =
     (round_double (if 0 \<le> p then c * 10 ^ nat p else c)
                   (if 0 \<le> p then 1 else 10 ^ nat (- p)) 0 = Some (m, e))"

definition candidate :: "nat \<Rightarrow> int \<Rightarrow> int \<Rightarrow> nat \<Rightarrow> (nat \<times> int) option" where
  \<comment> \<open>the decimal with \<open>j\<close> digits for the float \<open>m * 2 ^ e\<close>, whose \<open>floor_log10\<close> is \<open>l\<close>\<close>
  "candidate m e l j =
     (let p = l - int j + 1;
          n = (if 0 \<le> e then m * 2 ^ nat e else m) * (if 0 \<le> p then 1 else 10 ^ nat (- p));
          d = (if 0 \<le> e then 1 else 2 ^ nat (- e)) * (if 0 \<le> p then 10 ^ nat p else 1);
          lo = n div d; r = n mod d;
          up = (d < 2 * r \<or> (d = 2 * r \<and> odd lo));
          c1 = (if up then lo + 1 else lo);
          c2 = (if up then lo else lo + 1)
      in if rounds_to c1 p m e then Some (c1, p)
         else if rounds_to c2 p m e then Some (c2, p)
         else if j = 17 then Some (c1, p)
         else None)"

fun first_some :: "('a \<Rightarrow> 'b option) \<Rightarrow> 'a list \<Rightarrow> 'b option" where
  "first_some f [] = None"
| "first_some f (x # xs) = (case f x of Some y \<Rightarrow> Some y | None \<Rightarrow> first_some f xs)"

fun strip_zeros :: "nat \<Rightarrow> int \<Rightarrow> nat \<times> int" where
  "strip_zeros c p =
     (if c \<noteq> 0 \<and> c mod 10 = 0 then strip_zeros (c div 10) (p + 1) else (c, p))"

definition repr_digits :: "string \<Rightarrow> int \<Rightarrow> string" where
  "repr_digits ds decpt =
     (let n = int (length ds)
      in if decpt \<le> - 4 \<or> 16 < decpt then
           take 1 ds @ (if 1 < n then ''.'' @ drop 1 ds else [])
             @ ''e'' @ (if decpt - 1 < 0 then ''-'' else ''+'')
             @ (if \<bar>decpt - 1\<bar> < 10 then ''0'' else []) @ str_nat (nat \<bar>decpt - 1\<bar>)
         else if decpt \<le> 0 then ''0.'' @ replicate (nat (- decpt)) CHR ''0'' @ ds
         else if decpt < n then take (nat decpt) ds @ ''.'' @ drop (nat decpt) ds
         else ds @ replicate (nat (decpt - n)) CHR ''0'' @ ''.0'')"

fun float_repr :: "pyfloat \<Rightarrow> string" where
  "float_repr (Finite s m e) =
     (if s then ''-'' else []) @
     (if m = 0 then ''0.0''
      else
        let l = floor_log10 (if 0 \<le> e then m * 2 ^ nat e else m)
                            (if 0 \<le> e then 1 else 2 ^ nat (- e))
        in case first_some (candidate m e l) [1 ..< 18] of
             Some (c, p) \<Rightarrow>
               (case strip_zeros c p of
                  (c', p') \<Rightarrow> repr_digits (str_nat c') (int (length (str_nat c')) + p'))
           | None \<Rightarrow> [])"
| "float_repr (Infinite s) = (if s then ''-inf'' else ''inf'')"
| "float_repr NaN = ''nan''"

subsection \<open>\<^verbatim>\<open>str\<close> and \<^verbatim>\<open>repr\<close> of a value\<close>

text \<open>
  \<^verbatim>\<open>repr\<close> of a string quotes it, with double quotes when it holds a single quote and no
  double quote, and escapes the backslash, the quote and the characters that are not
  printable.
\<close>

definition hex2 :: "nat \<Rightarrow> string" where
  "hex2 n = [digit (n div 16), digit (n mod 16)]"

definition escape_char :: "char \<Rightarrow> char \<Rightarrow> string" where
  "escape_char q c =
     (let n = (of_char c :: nat)
      in if c = CHR 0x5C \<or> c = q then [CHR 0x5C, c]
         else if n = 9 then [CHR 0x5C, CHR ''t'']
         else if n = 10 then [CHR 0x5C, CHR ''n'']
         else if n = 13 then [CHR 0x5C, CHR ''r'']
         else if n < 32 \<or> n = 127 \<or> (128 \<le> n \<and> n \<le> 160) \<or> n = 173
           then [CHR 0x5C, CHR ''x''] @ hex2 n
         else [c])"

definition str_repr :: "string \<Rightarrow> string" where
  "str_repr s =
     (let q = (if CHR 0x27 \<in> set s \<and> CHR 0x22 \<notin> set s then CHR 0x22 else CHR 0x27)
      in [q] @ concat (map (escape_char q) s) @ [q])"

fun py_repr :: "pyval \<Rightarrow> string" where
  "py_repr PNone = ''None''"
| "py_repr (PBool b) = (if b then ''True'' else ''False'')"
| "py_repr (PInt i) = str_int i"
| "py_repr (PFloat f) = float_repr f"
| "py_repr (PStr s) = str_repr s"
| "py_repr (PList xs) = ''['' @ join '', '' (map py_repr xs) @ '']''"
| "py_repr (PDict kvs) =
     ''{'' @ join '', '' (map (\<lambda>kv. str_repr (fst kv) @ '': '' @ py_repr (snd kv)) kvs) @ ''}''"

definition py_str :: "pyval \<Rightarrow> string" where
  "py_str v = (case v of PStr s \<Rightarrow> s | _ \<Rightarrow> py_repr v)"

section \<open>Subscripts, lengths and iteration\<close>

definition py_getitem :: "pyval \<Rightarrow> string \<Rightarrow> exn + pyval" where
  \<comment> \<open>\<^verbatim>\<open>v[k]\<close> with a string \<open>k\<close>: only a dictionary can be subscripted by a string\<close>
  "py_getitem v k =
     (case v of
        PDict kvs \<Rightarrow> (case map_of kvs k of Some x \<Rightarrow> Inr x | None \<Rightarrow> Inl KeyError)
      | _ \<Rightarrow> Inl TypeError)"

definition py_len :: "pyval \<Rightarrow> exn + nat" where
  "py_len v =
     (case v of
        PStr s \<Rightarrow> Inr (length s)
      | PList xs \<Rightarrow> Inr (length xs)
      | PDict kvs \<Rightarrow> Inr (length (remdups (map fst kvs)))
      | _ \<Rightarrow> Inl TypeError)"

definition py_iter :: "pyval \<Rightarrow> exn + pyval list" where
  \<comment> \<open>the elements that \<^verbatim>\<open>*v\<close> and \<^verbatim>\<open>map(str, v)\<close> go through\<close>
  "py_iter v =
     (case v of
        PStr s \<Rightarrow> Inr (map (\<lambda>c. PStr [c]) s)
      | PList xs \<Rightarrow> Inr xs
      | PDict kvs \<Rightarrow> Inr (map PStr (remdups (map fst kvs)))
      | _ \<Rightarrow> Inl TypeError)"

definition py_lower :: "pyval \<Rightarrow> exn + string" where
  \<comment> \<open>\<^verbatim>\<open>v.lower()\<close>: only a string has the method\<close>
  "py_lower v = (case v of PStr s \<Rightarrow> Inr (lower s) | _ \<Rightarrow> Inl AttributeError)"

section \<open>The response parser\<close>

text \<open>
  \<^verbatim>\<open>parse_response\<close> (lines 142 to 147). \<^verbatim>\<open>json.loads\<close> belongs to the standard library
  and is a parameter: on a text it returns the decoded value or raises. Only
  \<^verbatim>\<open>JSONDecodeError\<close> is caught.
\<close>

definition parse_response :: "(string \<Rightarrow> exn + pyval) \<Rightarrow> string \<Rightarrow> pyval run" where
  "parse_response json_loads s =
     (case json_loads s of
        Inr v \<Rightarrow> ret v
      | Inl e \<Rightarrow>
          if e = JSONDecodeError then and_then (say DecodeFailed) (\<lambda>_. ret PNone)
          else raise e)"

section \<open>The arithmetic evaluator\<close>

text \<open>
  \<^verbatim>\<open>calculate\<close> (lines 150 to 169). \<^verbatim>\<open>simple_eval\<close> belongs to the package simpleeval
  and is a parameter: on the expression it returns a value or raises. The two
  subscripts come before the \<^verbatim>\<open>try\<close>; the evaluation and the formatting of the result
  are inside it. The last handler catches \<^verbatim>\<open>Exception\<close>, so an exception outside that
  class goes on.
\<close>

definition calculate :: "(pyval \<Rightarrow> exn + pyval) \<Rightarrow> pyval \<Rightarrow> pyval run" where
  "calculate simple_eval parsed =
     and_then (lift (py_getitem parsed ''tool'')) (\<lambda>tool.
     and_then (lift (py_getitem parsed ''expression'')) (\<lambda>expression.
     and_then (say (CallingTool tool)) (\<lambda>_.
     and_then (say (ExpressionIs expression)) (\<lambda>_.
       case try_then (simple_eval expression) format_2f of
         Inr text \<Rightarrow> ret (PStr (''Result: '' @ text))
       | Inl e \<Rightarrow>
           if e = ZeroDivisionError then and_then (say DivisionByZero) (\<lambda>_. ret PNone)
           else if e = InvalidExpression then and_then (say CouldNotEvaluate) (\<lambda>_. ret PNone)
           else if is_Exception e then and_then (say (UnexpectedError e)) (\<lambda>_. ret PNone)
           else raise e))))"

section \<open>The unit converter\<close>

text \<open>
  \<^verbatim>\<open>convert\<close> (lines 172 to 198). The \<^verbatim>\<open>match\<close> statement compares the key
  \<^verbatim>\<open>from_unit + '_' + to_unit\<close> with six string literals, in this order. Nothing is
  caught.
\<close>

definition result_text :: "pyval \<Rightarrow> pyval \<Rightarrow> pyval \<Rightarrow> pyval \<Rightarrow> exn + pyval" where
  \<comment> \<open>\<^verbatim>\<open>f'Result : {value} {from_unit} = {new_value:.2f} {to_unit}'\<close>\<close>
  "result_text v from_unit new_value to_unit =
     try_then (format_2f new_value) (\<lambda>text.
       Inr (PStr (''Result : '' @ py_str v @ '' '' @ py_str from_unit @ '' = '' @ text
                    @ '' '' @ py_str to_unit)))"

text \<open>
  The \<^verbatim>\<open>match\<close> statement (lines 181 to 196): \<open>Some\<close> of the new value, or \<open>None\<close>
  when the default case has printed its line and the function returns \<^verbatim>\<open>None\<close>.
\<close>

definition convert_match :: "pyval \<Rightarrow> pyval \<Rightarrow> pyval \<Rightarrow> pyval \<Rightarrow> pyval option run" where
  "convert_match key v from_unit to_unit =
     (if key = PStr ''km_miles'' then
        lift (try_then (py_mul v (PFloat (float_literal 621371 1000000))) (\<lambda>x. Inr (Some x)))
      else if key = PStr ''miles_km'' then
        lift (try_then (py_mul v (PFloat (float_literal 160934 100000))) (\<lambda>x. Inr (Some x)))
      else if key = PStr ''kg_lbs'' then
        lift (try_then (py_mul v (PFloat (float_literal 220462 100000))) (\<lambda>x. Inr (Some x)))
      else if key = PStr ''lbs_kg'' then
        lift (try_then (py_mul v (PFloat (float_literal 453592 1000000))) (\<lambda>x. Inr (Some x)))
      else if key = PStr ''celsius_fahrenheit'' then
        lift (try_then (py_mul v (PInt 9)) (\<lambda>a.
              try_then (py_truediv a (PInt 5)) (\<lambda>b.
              try_then (py_add b (PInt 32)) (\<lambda>x. Inr (Some x)))))
      else if key = PStr ''fahrenheit_celsius'' then
        lift (try_then (py_sub v (PInt 32)) (\<lambda>a.
              try_then (py_mul a (PInt 5)) (\<lambda>b.
              try_then (py_truediv b (PInt 9)) (\<lambda>x. Inr (Some x)))))
      else
        and_then (say (UnsupportedConversion from_unit to_unit)) (\<lambda>_. ret None))"

definition convert :: "pyval \<Rightarrow> pyval run" where
  "convert parsed =
     and_then (lift (py_getitem parsed ''tool'')) (\<lambda>tool.
     and_then (lift (py_getitem parsed ''value'')) (\<lambda>v.
     and_then (lift (py_getitem parsed ''from_unit'')) (\<lambda>from_unit.
     and_then (lift (py_getitem parsed ''to_unit'')) (\<lambda>to_unit.
     and_then (say (CallingTool tool)) (\<lambda>_.
     and_then (say (Converting v from_unit to_unit)) (\<lambda>_.
     and_then (lift (try_then (py_add from_unit (PStr ''_'')) (\<lambda>k. py_add k to_unit))) (\<lambda>key.
     and_then (convert_match key v from_unit to_unit) (\<lambda>new_value.
       case new_value of
         None \<Rightarrow> ret PNone
       | Some x \<Rightarrow> lift (result_text v from_unit x to_unit)))))))))"

section \<open>The operation registry and the algorithm invoker\<close>

text \<open>
  \<^verbatim>\<open>ALGORITHM_TOOLS\<close> (lines 9 to 33) maps a name to a pair of a function and a
  description. The functions are those of the module \<^verbatim>\<open>math\<close> and lambdas over floats;
  a function is named here, and what a call of it returns or raises is a parameter of
  the invoker.
\<close>

datatype callable =
    Math_gcd | Math_lcm | Math_factorial | Lambda_is_prime | Lambda_nth_root
  | Math_log | Math_log2 | Math_log10 | Lambda_fibonacci | Lambda_circle_area
  | Math_hypot | Lambda_sin | Lambda_cos | Lambda_tan

definition ALGORITHM_TOOLS :: "(string \<times> callable \<times> string) list" where
  "ALGORITHM_TOOLS =
     [(''gcd'', Math_gcd, ''inputs: [a, b]''),
      (''lcm'', Math_lcm, ''inputs: [a, b]''),
      (''factorial'', Math_factorial, ''inputs: [n]''),
      (''is_prime'', Lambda_is_prime, ''inputs: [n]''),
      (''nth_root'', Lambda_nth_root, ''inputs: [n, root]''),
      (''log'', Math_log, ''inputs: [n, base]''),
      (''log2'', Math_log2, ''inputs: [n]''),
      (''log10'', Math_log10, ''inputs: [n]''),
      (''fibonacci'', Lambda_fibonacci, ''inputs: [n]''),
      (''circle_area'', Lambda_circle_area, ''inputs: [radius]''),
      (''hypotenuse'', Math_hypot, ''inputs: [a, b]''),
      (''sin'', Lambda_sin, ''inputs: [degrees]''),
      (''cos'', Lambda_cos, ''inputs: [degrees]''),
      (''tan'', Lambda_tan, ''inputs: [degrees]'')]"

definition expected_inputs :: "string \<Rightarrow> exn + nat" where
  \<comment> \<open>line 210: \<^verbatim>\<open>int(desc.split('[')[1].rstrip(']').count(',')) + 1\<close>\<close>
  "expected_inputs desc =
     (case split_on CHR ''['' desc of
        _ # part # _ \<Rightarrow> Inr (count_list (rstrip CHR '']'' part) CHR '','' + 1)
      | _ \<Rightarrow> Inl IndexError)"

definition lookup_tool ::
  "(string \<times> callable \<times> string) list \<Rightarrow> pyval \<Rightarrow> exn + (callable \<times> string) option" where
  \<comment> \<open>\<^verbatim>\<open>operation not in ALGORITHM_TOOLS\<close> hashes the operation: a list or a dictionary
      raises \<^verbatim>\<open>TypeError\<close>; of the other values only a string can be a key\<close>
  "lookup_tool tools operation =
     (case operation of
        PStr name \<Rightarrow> Inr (map_of tools name)
      | PList _ \<Rightarrow> Inl TypeError
      | PDict _ \<Rightarrow> Inl TypeError
      | _ \<Rightarrow> Inr None)"

definition algorithm_text :: "pyval \<Rightarrow> pyval \<Rightarrow> pyval \<Rightarrow> exn + pyval" where
  \<comment> \<open>\<^verbatim>\<open>f'Result: {operation}({", ".join(map(str, inputs))}) = {result}'\<close>\<close>
  "algorithm_text operation inputs result =
     try_then (py_iter inputs) (\<lambda>xs.
       Inr (PStr (''Result: '' @ py_str operation @ ''('' @ join '', '' (map py_str xs)
                    @ '') = '' @ py_str result)))"

text \<open>
  \<^verbatim>\<open>run_algorithm\<close> (lines 201 to 222), over the registry that the module holds. Only the
  call of the function and the formatting of its result are inside the \<^verbatim>\<open>try\<close>.
\<close>

definition run_algorithm_in ::
  "(string \<times> callable \<times> string) list \<Rightarrow> (callable \<Rightarrow> pyval list \<Rightarrow> exn + pyval)
     \<Rightarrow> pyval \<Rightarrow> pyval run" where
  "run_algorithm_in tools call parsed =
     and_then (lift (py_getitem parsed ''operation'')) (\<lambda>operation.
     and_then (lift (py_getitem parsed ''inputs'')) (\<lambda>inputs.
     and_then (lift (lookup_tool tools operation)) (\<lambda>entry.
       case entry of
         None \<Rightarrow> and_then (say (UnknownOperation operation)) (\<lambda>_. ret PNone)
       | Some (func, desc) \<Rightarrow>
           and_then (lift (expected_inputs desc)) (\<lambda>expected.
           and_then (lift (py_len inputs)) (\<lambda>n.
             if n \<noteq> expected then
               and_then (say (ExpectsInputs operation expected n)) (\<lambda>_. ret PNone)
             else
               and_then (say (Performing operation inputs)) (\<lambda>_.
                 case try_then (py_iter inputs) (\<lambda>args.
                      try_then (call func args) (\<lambda>result.
                        algorithm_text operation inputs result)) of
                   Inr text \<Rightarrow> ret text
                 | Inl e \<Rightarrow>
                     if is_Exception e then and_then (say (ErrorIs e)) (\<lambda>_. ret PNone)
                     else raise e))))))"

definition run_algorithm :: "(callable \<Rightarrow> pyval list \<Rightarrow> exn + pyval) \<Rightarrow> pyval \<Rightarrow> pyval run" where
  "run_algorithm = run_algorithm_in ALGORITHM_TOOLS"

section \<open>The dispatch of a reply\<close>

text \<open>
  Lines 236 to 246 of the loop: \<^verbatim>\<open>result\<close> starts as the empty string; a parsed reply
  that is not \<^verbatim>\<open>None\<close> is dispatched on \<^verbatim>\<open>parsed['tool']\<close>. The comparison with
  \<^verbatim>\<open>'none'\<close> is on the tag as it is, the three others on the tag in lower case. There is
  no \<^verbatim>\<open>else\<close> branch. The value returned is the one \<^verbatim>\<open>result\<close> ends with.
\<close>

definition dispatch ::
  "(pyval \<Rightarrow> exn + pyval) \<Rightarrow> (callable \<Rightarrow> pyval list \<Rightarrow> exn + pyval) \<Rightarrow> pyval \<Rightarrow> pyval run" where
  "dispatch simple_eval call parsed =
     (if parsed = PNone then ret (PStr [])
      else
        and_then (lift (py_getitem parsed ''tool'')) (\<lambda>tool.
          if tool = PStr ''none'' then and_then (say OnlyMath) (\<lambda>_. ret (PStr []))
          else
            and_then (lift (py_lower tool)) (\<lambda>tag.
              if tag = ''calculator'' then calculate simple_eval parsed
              else if tag = ''converter'' then convert parsed
              else if tag = ''algorithm'' then run_algorithm call parsed
              else ret (PStr []))))"

text \<open>Lines 234 to 246: the reply of the model is parsed, then dispatched.\<close>

definition handle_reply ::
  "(string \<Rightarrow> exn + pyval) \<Rightarrow> (pyval \<Rightarrow> exn + pyval)
     \<Rightarrow> (callable \<Rightarrow> pyval list \<Rightarrow> exn + pyval) \<Rightarrow> string \<Rightarrow> pyval run" where
  "handle_reply json_loads simple_eval call content =
     and_then (parse_response json_loads content) (\<lambda>parsed.
       dispatch simple_eval call parsed)"

section \<open>The tables of the specification\<close>

text \<open>
  The conversion table as the specification lists it: six pairs of a source and a
  target unit, each with its formula over the operators of Python. The match statement
  of \<^verbatim>\<open>convert\<close> is compared with a lookup in this table.
\<close>

definition conversion_table :: "((string \<times> string) \<times> (pyval \<Rightarrow> exn + pyval)) list" where
  "conversion_table =
     [((''km'', ''miles''), \<lambda>v. py_mul v (PFloat (float_literal 621371 1000000))),
      ((''miles'', ''km''), \<lambda>v. py_mul v (PFloat (float_literal 160934 100000))),
      ((''kg'', ''lbs''), \<lambda>v. py_mul v (PFloat (float_literal 220462 100000))),
      ((''lbs'', ''kg''), \<lambda>v. py_mul v (PFloat (float_literal 453592 1000000))),
      ((''celsius'', ''fahrenheit''),
         \<lambda>v. try_then (py_mul v (PInt 9)) (\<lambda>a.
              try_then (py_truediv a (PInt 5)) (\<lambda>b. py_add b (PInt 32)))),
      ((''fahrenheit'', ''celsius''),
         \<lambda>v. try_then (py_sub v (PInt 32)) (\<lambda>a.
              try_then (py_mul a (PInt 5)) (\<lambda>b. py_truediv b (PInt 9))))]"

text \<open>The arities of the operations as the table of the specification declares them.\<close>

definition registry_arity :: "(string \<times> nat) list" where
  "registry_arity =
     [(''gcd'', 2), (''lcm'', 2), (''factorial'', 1), (''is_prime'', 1), (''nth_root'', 2),
      (''log'', 2), (''log2'', 1), (''log10'', 1), (''fibonacci'', 1), (''circle_area'', 1),
      (''hypotenuse'', 2), (''sin'', 1), (''cos'', 1), (''tan'', 1)]"


section \<open>Library behaviours for the examples\<close>

text \<open>
  The examples below need the libraries at a few inputs only; each definition says what
  the library does there, when it is called as the source calls it.

  \<open>loads_sample\<close> for \<^verbatim>\<open>json.loads\<close> of CPython: a text that begins with 100000
  opening brackets nests deeper than the recursion limit of the decoder, which raises
  \<^verbatim>\<open>RecursionError\<close>; the constant \<^verbatim>\<open>NaN\<close> is accepted, although it is not JSON;
  \<^verbatim>\<open>null\<close>, \<^verbatim>\<open>5\<close> and \<^verbatim>\<open>[1, 2]\<close> are decoded. Any other text is taken as one that
  cannot be decoded (\<^verbatim>\<open>JSONDecodeError\<close>), which is what the decoder does on the text
  \<^verbatim>\<open>{bad\<close>.
\<close>

definition loads_sample :: "string \<Rightarrow> exn + pyval" where
  "loads_sample s =
     (if 100000 \<le> length (takeWhile (\<lambda>c. c = CHR ''['') s) then Inl RecursionError
      else if s = ''null'' then Inr PNone
      else if s = ''5'' then Inr (PInt 5)
      else if s = ''[1, 2]'' then Inr (PList [PInt 1, PInt 2])
      else if s = ''NaN'' then Inr (PFloat NaN)
      else Inl JSONDecodeError)"

text \<open>
  \<open>eval_sample\<close> for \<^verbatim>\<open>simple_eval\<close> of the package simpleeval, with the functions and
  names the package provides when none are passed (\<^verbatim>\<open>int\<close>, \<^verbatim>\<open>float\<close>, \<^verbatim>\<open>str\<close>,
  \<^verbatim>\<open>rand\<close>, \<^verbatim>\<open>randint\<close>; \<^verbatim>\<open>True\<close>, \<^verbatim>\<open>False\<close>, \<^verbatim>\<open>None\<close>): the call \<^verbatim>\<open>int(5.7)\<close>
  is evaluated to \<open>5\<close> and the name \<^verbatim>\<open>True\<close> to the boolean; any other expression is
  taken as one that the package rejects (\<^verbatim>\<open>InvalidExpression\<close>), which is what it does
  on \<^verbatim>\<open>sqrt(25)\<close>.
\<close>

definition eval_sample :: "pyval \<Rightarrow> exn + pyval" where
  "eval_sample expression =
     (if expression = PStr ''int(5.7)'' then Inr (PInt 5)
      else if expression = PStr ''True'' then Inr (PBool True)
      else Inl InvalidExpression)"

text \<open>
  \<open>call_sample\<close> for the calls of the registered functions: \<^verbatim>\<open>math.factorial(5)\<close>
  returns \<open>120\<close>; any other call is taken as one that raises \<^verbatim>\<open>ValueError\<close>, which is
  what \<^verbatim>\<open>math.factorial(-1)\<close> does.
\<close>

definition call_sample :: "callable \<Rightarrow> pyval list \<Rightarrow> exn + pyval" where
  "call_sample func args =
     (if func = Math_factorial \<and> args = [PInt 5] then Inr (PInt 120) else Inl ValueError)"

section \<open>Properties\<close>

lemmas run_defs = ret_def raise_def say_def lift_def and_then_def try_then_def

subsection \<open>Sequencing\<close>

lemma and_then_simps:
  "and_then (lift (Inr v)) f = f v"
  "and_then (lift (Inl e)) f = ([], Inl e)"
  "and_then (ret v) f = f v"
  "and_then (raise e) f = ([], Inl e)"
  "and_then (say l) g = (case g () of (out, r) \<Rightarrow> (l # out, r))"
  by (simp_all add: run_defs split: prod.splits)

subsection \<open>The match statement of the converter\<close>

text \<open>
  The six literals hold one underscore each, so the key
  \<^verbatim>\<open>from_unit + '_' + to_unit\<close> equals one of them for one pair of units only.
\<close>

lemma key_eq:
  assumes "CHR ''_'' \<notin> set a" and "CHR ''_'' \<notin> set b"
  shows "(f @ ''_'') @ t = a @ ''_'' @ b \<longleftrightarrow> f = a \<and> t = b"
  using assms
  by (auto simp: append_eq_append_conv2 Cons_eq_append_conv append_eq_Cons_conv)

lemma key_km_miles: "(f @ ''_'') @ t = ''km_miles'' \<longleftrightarrow> f = ''km'' \<and> t = ''miles''"
  using key_eq [of "''km''" "''miles''" f t] by simp

lemma key_miles_km: "(f @ ''_'') @ t = ''miles_km'' \<longleftrightarrow> f = ''miles'' \<and> t = ''km''"
  using key_eq [of "''miles''" "''km''" f t] by simp

lemma key_kg_lbs: "(f @ ''_'') @ t = ''kg_lbs'' \<longleftrightarrow> f = ''kg'' \<and> t = ''lbs''"
  using key_eq [of "''kg''" "''lbs''" f t] by simp

lemma key_lbs_kg: "(f @ ''_'') @ t = ''lbs_kg'' \<longleftrightarrow> f = ''lbs'' \<and> t = ''kg''"
  using key_eq [of "''lbs''" "''kg''" f t] by simp

lemma key_celsius_fahrenheit:
  "(f @ ''_'') @ t = ''celsius_fahrenheit'' \<longleftrightarrow> f = ''celsius'' \<and> t = ''fahrenheit''"
  using key_eq [of "''celsius''" "''fahrenheit''" f t] by simp

lemma key_fahrenheit_celsius:
  "(f @ ''_'') @ t = ''fahrenheit_celsius'' \<longleftrightarrow> f = ''fahrenheit'' \<and> t = ''celsius''"
  using key_eq [of "''fahrenheit''" "''celsius''" f t] by simp

lemmas key_simps = key_km_miles key_miles_km key_kg_lbs key_lbs_kg
  key_celsius_fahrenheit key_fahrenheit_celsius

lemma unit_key:
  "try_then (py_add (PStr f) (PStr ''_'')) (\<lambda>k. py_add k (PStr t)) = Inr (PStr ((f @ ''_'') @ t))"
  by (simp add: py_add_def try_then_def)

lemma match_km_miles:
  "convert_match (PStr ''km_miles'') v a b =
     lift (try_then (py_mul v (PFloat (float_literal 621371 1000000))) (\<lambda>x. Inr (Some x)))"
  by (simp add: convert_match_def)

lemma match_miles_km:
  "convert_match (PStr ''miles_km'') v a b =
     lift (try_then (py_mul v (PFloat (float_literal 160934 100000))) (\<lambda>x. Inr (Some x)))"
  by (simp add: convert_match_def)

lemma match_kg_lbs:
  "convert_match (PStr ''kg_lbs'') v a b =
     lift (try_then (py_mul v (PFloat (float_literal 220462 100000))) (\<lambda>x. Inr (Some x)))"
  by (simp add: convert_match_def)

lemma match_lbs_kg:
  "convert_match (PStr ''lbs_kg'') v a b =
     lift (try_then (py_mul v (PFloat (float_literal 453592 1000000))) (\<lambda>x. Inr (Some x)))"
  by (simp add: convert_match_def)

lemma match_celsius_fahrenheit:
  "convert_match (PStr ''celsius_fahrenheit'') v a b =
     lift (try_then (try_then (py_mul v (PInt 9)) (\<lambda>a.
             try_then (py_truediv a (PInt 5)) (\<lambda>b. py_add b (PInt 32))))
           (\<lambda>x. Inr (Some x)))"
  by (simp add: convert_match_def try_then_def split: sum.splits)

lemma match_fahrenheit_celsius:
  "convert_match (PStr ''fahrenheit_celsius'') v a b =
     lift (try_then (try_then (py_sub v (PInt 32)) (\<lambda>a.
             try_then (py_mul a (PInt 5)) (\<lambda>b. py_truediv b (PInt 9))))
           (\<lambda>x. Inr (Some x)))"
  by (simp add: convert_match_def try_then_def split: sum.splits)

lemma match_default:
  assumes "k \<noteq> ''km_miles''" "k \<noteq> ''miles_km''" "k \<noteq> ''kg_lbs''" "k \<noteq> ''lbs_kg''"
          "k \<noteq> ''celsius_fahrenheit''" "k \<noteq> ''fahrenheit_celsius''"
  shows "convert_match (PStr k) v a b = ([UnsupportedConversion a b], Inr None)"
  using assms by (simp add: convert_match_def run_defs)

lemma convert_via_match:
  assumes "py_getitem parsed ''tool'' = Inr tool"
      and "py_getitem parsed ''value'' = Inr v"
      and "py_getitem parsed ''from_unit'' = Inr (PStr f)"
      and "py_getitem parsed ''to_unit'' = Inr (PStr t)"
      and "convert_match (PStr ((f @ ''_'') @ t)) v (PStr f) (PStr t) = (out, r)"
  shows "convert parsed =
           (CallingTool tool # Converting v (PStr f) (PStr t) # out,
            case r of
              Inl e \<Rightarrow> Inl e
            | Inr None \<Rightarrow> Inr PNone
            | Inr (Some x) \<Rightarrow> result_text v (PStr f) x (PStr t))"
proof -
  have "convert parsed =
          and_then (say (CallingTool tool)) (\<lambda>_.
          and_then (say (Converting v (PStr f) (PStr t))) (\<lambda>_.
          and_then (out, r) (\<lambda>new_value.
            case new_value of
              None \<Rightarrow> ret PNone
            | Some x \<Rightarrow> lift (result_text v (PStr f) x (PStr t)))))"
    by (simp only: convert_def assms and_then_simps(1) unit_key)
  also have "\<dots> = (CallingTool tool # Converting v (PStr f) (PStr t) # out,
            case r of
              Inl e \<Rightarrow> Inl e
            | Inr None \<Rightarrow> Inr PNone
            | Inr (Some x) \<Rightarrow> result_text v (PStr f) x (PStr t))"
  proof (cases r)
    case (Inl e)
    then show ?thesis by (simp add: run_defs)
  next
    case (Inr y)
    then show ?thesis by (cases y) (simp_all add: run_defs)
  qed
  finally show ?thesis .
qed

lemma result_text_eq:
  "(case try_then r (\<lambda>x. Inr (Some x)) of
      Inl e \<Rightarrow> Inl e
    | Inr None \<Rightarrow> Inr PNone
    | Inr (Some x) \<Rightarrow> result_text v (PStr f) x (PStr t)) =
   try_then r (\<lambda>x. try_then (format_2f x) (\<lambda>text.
     Inr (PStr (''Result : '' @ py_str v @ '' '' @ f @ '' = '' @ text @ '' '' @ t))))"
  by (cases r) (simp_all add: try_then_def result_text_def py_str_def)

text \<open>
  \<^verbatim>\<open>convert\<close> on a request with its four fields and two unit strings is the lookup of
  the pair in the table of the specification: the formula, then the format with two
  decimals, an exception of either going on to the caller.
\<close>

lemma table_lookup:
  "map_of conversion_table (f, t) =
     (if f = ''km'' \<and> t = ''miles'' then Some (\<lambda>v. py_mul v (PFloat (float_literal 621371 1000000)))
      else if f = ''miles'' \<and> t = ''km'' then Some (\<lambda>v. py_mul v (PFloat (float_literal 160934 100000)))
      else if f = ''kg'' \<and> t = ''lbs'' then Some (\<lambda>v. py_mul v (PFloat (float_literal 220462 100000)))
      else if f = ''lbs'' \<and> t = ''kg'' then Some (\<lambda>v. py_mul v (PFloat (float_literal 453592 1000000)))
      else if f = ''celsius'' \<and> t = ''fahrenheit'' then
        Some (\<lambda>v. try_then (py_mul v (PInt 9)) (\<lambda>a.
              try_then (py_truediv a (PInt 5)) (\<lambda>b. py_add b (PInt 32))))
      else if f = ''fahrenheit'' \<and> t = ''celsius'' then
        Some (\<lambda>v. try_then (py_sub v (PInt 32)) (\<lambda>a.
              try_then (py_mul a (PInt 5)) (\<lambda>b. py_truediv b (PInt 9))))
      else None)"
  unfolding conversion_table_def map_of.simps fun_upd_apply fst_conv snd_conv prod.inject
  by (simp only: if_not_P if_P refl split: if_splits)

lemma convert_unfold:
  assumes "py_getitem parsed ''tool'' = Inr tool"
      and "py_getitem parsed ''value'' = Inr v"
      and "py_getitem parsed ''from_unit'' = Inr (PStr f)"
      and "py_getitem parsed ''to_unit'' = Inr (PStr t)"
  shows "convert parsed =
           (case map_of conversion_table (f, t) of
              None \<Rightarrow>
                ([CallingTool tool, Converting v (PStr f) (PStr t),
                  UnsupportedConversion (PStr f) (PStr t)], Inr PNone)
            | Some formula \<Rightarrow>
                ([CallingTool tool, Converting v (PStr f) (PStr t)],
                 try_then (formula v) (\<lambda>x. try_then (format_2f x) (\<lambda>text.
                   Inr (PStr (''Result : '' @ py_str v @ '' '' @ f @ '' = '' @ text
                                @ '' '' @ t))))))"
proof -
  note via = convert_via_match [OF assms]
  show ?thesis
  proof (cases "f = ''km'' \<and> t = ''miles''")
    case True
    have k: "convert_match (PStr ((f @ ''_'') @ t)) v (PStr f) (PStr t) =
               ([], try_then (py_mul v (PFloat (float_literal 621371 1000000))) (\<lambda>x. Inr (Some x)))"
      using True by (simp add: match_km_miles lift_def)
    have m: "map_of conversion_table (f, t) = Some (\<lambda>v. py_mul v (PFloat (float_literal 621371 1000000)))"
      unfolding table_lookup using True by simp
    show ?thesis
      by (simp only: via [OF k] m result_text_eq option.case)
  next
    case n1: False
    show ?thesis
    proof (cases "f = ''miles'' \<and> t = ''km''")
      case True
      have k: "convert_match (PStr ((f @ ''_'') @ t)) v (PStr f) (PStr t) =
                 ([], try_then (py_mul v (PFloat (float_literal 160934 100000))) (\<lambda>x. Inr (Some x)))"
        using True by (simp add: match_miles_km lift_def)
      have m: "map_of conversion_table (f, t) = Some (\<lambda>v. py_mul v (PFloat (float_literal 160934 100000)))"
        unfolding table_lookup using True by simp
      show ?thesis
        by (simp only: via [OF k] m result_text_eq option.case)
    next
      case n2: False
      show ?thesis
      proof (cases "f = ''kg'' \<and> t = ''lbs''")
        case True
        have k: "convert_match (PStr ((f @ ''_'') @ t)) v (PStr f) (PStr t) =
                   ([], try_then (py_mul v (PFloat (float_literal 220462 100000))) (\<lambda>x. Inr (Some x)))"
          using True by (simp add: match_kg_lbs lift_def)
        have m: "map_of conversion_table (f, t) = Some (\<lambda>v. py_mul v (PFloat (float_literal 220462 100000)))"
          unfolding table_lookup using True by simp
        show ?thesis
          by (simp only: via [OF k] m result_text_eq option.case)
      next
        case n3: False
        show ?thesis
        proof (cases "f = ''lbs'' \<and> t = ''kg''")
          case True
          have k: "convert_match (PStr ((f @ ''_'') @ t)) v (PStr f) (PStr t) =
                     ([], try_then (py_mul v (PFloat (float_literal 453592 1000000))) (\<lambda>x. Inr (Some x)))"
            using True by (simp add: match_lbs_kg lift_def)
          have m: "map_of conversion_table (f, t) = Some (\<lambda>v. py_mul v (PFloat (float_literal 453592 1000000)))"
            unfolding table_lookup using True by simp
          show ?thesis
            by (simp only: via [OF k] m result_text_eq option.case)
        next
          case n4: False
          show ?thesis
          proof (cases "f = ''celsius'' \<and> t = ''fahrenheit''")
            case True
            have k: "convert_match (PStr ((f @ ''_'') @ t)) v (PStr f) (PStr t) =
                       ([], try_then (try_then (py_mul v (PInt 9)) (\<lambda>a. try_then (py_truediv a (PInt 5)) (\<lambda>b. py_add b (PInt 32)))) (\<lambda>x. Inr (Some x)))"
              using True by (simp add: match_celsius_fahrenheit lift_def)
            have m: "map_of conversion_table (f, t) = Some (\<lambda>v. try_then (py_mul v (PInt 9)) (\<lambda>a. try_then (py_truediv a (PInt 5)) (\<lambda>b. py_add b (PInt 32))))"
              unfolding table_lookup using True by simp
            show ?thesis
              by (simp only: via [OF k] m result_text_eq option.case)
          next
            case n5: False
            show ?thesis
            proof (cases "f = ''fahrenheit'' \<and> t = ''celsius''")
              case True
              have k: "convert_match (PStr ((f @ ''_'') @ t)) v (PStr f) (PStr t) =
                         ([], try_then (try_then (py_sub v (PInt 32)) (\<lambda>a. try_then (py_mul a (PInt 5)) (\<lambda>b. py_truediv b (PInt 9)))) (\<lambda>x. Inr (Some x)))"
                using True by (simp add: match_fahrenheit_celsius lift_def)
              have m: "map_of conversion_table (f, t) = Some (\<lambda>v. try_then (py_sub v (PInt 32)) (\<lambda>a. try_then (py_mul a (PInt 5)) (\<lambda>b. py_truediv b (PInt 9))))"
                unfolding table_lookup using True by simp
              show ?thesis
                by (simp only: via [OF k] m result_text_eq option.case)
            next
              case n6: False
              have m: "map_of conversion_table (f, t) = None"
                by (simp only: table_lookup n1 n2 n3 n4 n5 n6 if_False)
              have d: "convert_match (PStr ((f @ ''_'') @ t)) v (PStr f) (PStr t) =
                         ([UnsupportedConversion (PStr f) (PStr t)], Inr None)"
                by (rule match_default) (simp_all only: key_simps n1 n2 n3 n4 n5 n6 not_False_eq_True)
              show ?thesis
                by (simp only: via [OF d] m option.case sum.case)
            qed
          qed
        qed
      qed
    qed
  qed
qed

lemma lower_units:
  "lower ''km'' = ''km''" "lower ''miles'' = ''miles''" "lower ''kg'' = ''kg''"
  "lower ''lbs'' = ''lbs''" "lower ''celsius'' = ''celsius''"
  "lower ''fahrenheit'' = ''fahrenheit''"
  by (simp_all add: lower_def lower_char_def)

lemma table_exact_case:
  assumes "(f, t) \<noteq> (lower f, lower t)"
  shows "map_of conversion_table (f, t) = None"
proof -
  have n1: "\<not> (f = ''km'' \<and> t = ''miles'')"
  proof
    assume "f = ''km'' \<and> t = ''miles''"
    then have "f = lower f" and "t = lower t" by (simp_all add: lower_units)
    with assms show False by simp
  qed
  have n2: "\<not> (f = ''miles'' \<and> t = ''km'')"
  proof
    assume "f = ''miles'' \<and> t = ''km''"
    then have "f = lower f" and "t = lower t" by (simp_all add: lower_units)
    with assms show False by simp
  qed
  have n3: "\<not> (f = ''kg'' \<and> t = ''lbs'')"
  proof
    assume "f = ''kg'' \<and> t = ''lbs''"
    then have "f = lower f" and "t = lower t" by (simp_all add: lower_units)
    with assms show False by simp
  qed
  have n4: "\<not> (f = ''lbs'' \<and> t = ''kg'')"
  proof
    assume "f = ''lbs'' \<and> t = ''kg''"
    then have "f = lower f" and "t = lower t" by (simp_all add: lower_units)
    with assms show False by simp
  qed
  have n5: "\<not> (f = ''celsius'' \<and> t = ''fahrenheit'')"
  proof
    assume "f = ''celsius'' \<and> t = ''fahrenheit''"
    then have "f = lower f" and "t = lower t" by (simp_all add: lower_units)
    with assms show False by simp
  qed
  have n6: "\<not> (f = ''fahrenheit'' \<and> t = ''celsius'')"
  proof
    assume "f = ''fahrenheit'' \<and> t = ''celsius''"
    then have "f = lower f" and "t = lower t" by (simp_all add: lower_units)
    with assms show False by simp
  qed
  show ?thesis
    by (simp only: table_lookup n1 n2 n3 n4 n5 n6 if_False)
qed

subsection \<open>The registry\<close>

lemma expected_inputs_descriptions:
  "expected_inputs ''inputs: [a, b]'' = Inr 2"
  "expected_inputs ''inputs: [n]'' = Inr 1"
  "expected_inputs ''inputs: [n, root]'' = Inr 2"
  "expected_inputs ''inputs: [n, base]'' = Inr 2"
  "expected_inputs ''inputs: [radius]'' = Inr 1"
  "expected_inputs ''inputs: [degrees]'' = Inr 1"
  by (simp_all add: expected_inputs_def rstrip_def)

lemma registry_expected:
  "map_option (\<lambda>entry. expected_inputs (snd entry)) (map_of ALGORITHM_TOOLS name) =
   map_option Inr (map_of registry_arity name)"
  by (simp add: ALGORITHM_TOOLS_def registry_arity_def expected_inputs_descriptions)

lemma registry_commas:
  "list_all (\<lambda>entry. expected_inputs (snd (snd entry)) =
                        Inr (count_list (snd (snd entry)) CHR '','' + 1))
            ALGORITHM_TOOLS"
  by (simp add: ALGORITHM_TOOLS_def expected_inputs_descriptions)

lemma run_algorithm_mismatch:
  assumes "py_getitem parsed ''operation'' = Inr (PStr name)"
      and "py_getitem parsed ''inputs'' = Inr (PList xs)"
      and "map_of tools name = Some (func, desc)"
      and "expected_inputs desc = Inr k"
      and "length xs \<noteq> k"
  shows "run_algorithm_in tools call parsed =
           ([ExpectsInputs (PStr name) k (length xs)], Inr PNone)"
  using assms by (simp add: run_algorithm_in_def lookup_tool_def py_len_def run_defs)

lemma run_algorithm_match:
  assumes "py_getitem parsed ''operation'' = Inr (PStr name)"
      and "py_getitem parsed ''inputs'' = Inr (PList xs)"
      and "map_of tools name = Some (func, desc)"
      and "expected_inputs desc = Inr (length xs)"
  shows "run_algorithm_in tools call parsed =
           (case call func xs of
              Inr result \<Rightarrow>
                ([Performing (PStr name) (PList xs)],
                 Inr (PStr (''Result: '' @ name @ ''('' @ join '', '' (map py_str xs)
                              @ '') = '' @ py_str result)))
            | Inl e \<Rightarrow>
                if is_Exception e
                then ([Performing (PStr name) (PList xs), ErrorIs e], Inr PNone)
                else ([Performing (PStr name) (PList xs)], Inl e))"
  using assms
  by (simp add: run_algorithm_in_def lookup_tool_def py_len_def py_iter_def algorithm_text_def
        py_str_def run_defs split: sum.splits)

lemma registered_arity:
  assumes "map_of registry_arity name = Some k"
  obtains func desc where "map_of ALGORITHM_TOOLS name = Some (func, desc)"
    and "expected_inputs desc = Inr k"
proof -
  from registry_expected [of name] assms
  have "map_option (\<lambda>entry. expected_inputs (snd entry)) (map_of ALGORITHM_TOOLS name)
          = Some (Inr k)"
    by simp
  then obtain entry where "map_of ALGORITHM_TOOLS name = Some entry"
    and "expected_inputs (snd entry) = Inr k"
    by auto
  then show thesis
    using that [of "fst entry" "snd entry"] by simp
qed

lemma registered_commas:
  assumes "map_of ALGORITHM_TOOLS name = Some (func, desc)"
  shows "expected_inputs desc = Inr (count_list desc CHR '','' + 1)"
    and "map_of registry_arity name = Some (count_list desc CHR '','' + 1)"
proof -
  from assms have "(name, func, desc) \<in> set ALGORITHM_TOOLS"
    by (rule map_of_SomeD)
  with registry_commas show e: "expected_inputs desc = Inr (count_list desc CHR '','' + 1)"
    by (auto simp: list_all_iff)
  from registry_expected [of name] assms e
  show "map_of registry_arity name = Some (count_list desc CHR '','' + 1)"
    by (cases "map_of registry_arity name") auto
qed

lemma algorithm_fields:
  "py_getitem (PDict [(''tool'', tool), (''operation'', operation), (''inputs'', inputs)])
     ''operation'' = Inr operation"
  "py_getitem (PDict [(''tool'', tool), (''operation'', operation), (''inputs'', inputs)])
     ''inputs'' = Inr inputs"
  by (simp_all add: py_getitem_def)

subsection \<open>Examples of the arithmetic\<close>

lemmas num_defs = round_double_def floor_log2_def div_half_even_def to_float_def
  float_literal_def int_to_float_def int_truediv_def signed_def float_sub_def
  hundredths_def Let_def



lemma celsius_fahrenheit_100:
  "try_then (try_then (py_mul (PInt 100) (PInt 9)) (\<lambda>a.
      try_then (py_truediv a (PInt 5)) (\<lambda>b. py_add b (PInt 32))))
     (\<lambda>x. try_then (format_2f x) (\<lambda>text. Inr (PStr (''Result : '' @ py_str (PInt 100)
        @ '' '' @ ''celsius'' @ '' = '' @ text @ '' '' @ ''fahrenheit'')))) =
   Inr (PStr ''Result : 100 celsius = 212.00 fahrenheit'')"
  by (simp add: py_add_def py_mul_def py_truediv_def try_then_def py_str_def str_int_def
        digit_def num_defs)

lemma sample_fields:
  "py_getitem (PDict [(''tool'', tool), (''value'', v), (''from_unit'', f), (''to_unit'', t)])
     ''tool'' = Inr tool"
  "py_getitem (PDict [(''tool'', tool), (''value'', v), (''from_unit'', f), (''to_unit'', t)])
     ''value'' = Inr v"
  "py_getitem (PDict [(''tool'', tool), (''value'', v), (''from_unit'', f), (''to_unit'', t)])
     ''from_unit'' = Inr f"
  "py_getitem (PDict [(''tool'', tool), (''value'', v), (''from_unit'', f), (''to_unit'', t)])
     ''to_unit'' = Inr t"
  by (simp_all add: py_getitem_def)

subsection \<open>Subscripts and texts\<close>

lemma getitem_dict:
  assumes "py_getitem parsed k = Inr x"
  obtains kvs where "parsed = PDict kvs"
  using assms by (cases parsed) (simp_all add: py_getitem_def)

lemma getitem_not_dict:
  assumes "\<forall>kvs. v \<noteq> PDict kvs"
  shows "py_getitem v k = Inl TypeError"
  using assms by (cases v) (simp_all add: py_getitem_def)

lemma lower_none: "lower ''none'' = ''none''"
  by (simp add: lower_def lower_char_def)

lemma deep_nesting:
  "n \<le> length (takeWhile (\<lambda>c. c = x) (replicate n x @ rest))"
  by (induction n) simp_all

subsection \<open>The evaluator\<close>






subsection \<open>Numbers within the range of a float\<close>














subsection \<open>Handlers that return\<close>





subsection \<open>The claims\<close>

text \<open>
  C9, as the specification states it, fails: a text that is not valid JSON can leave
  \<^verbatim>\<open>parse_response\<close> with an exception, and can be returned as a value with no
  diagnostic. A text of 100000 opening brackets makes the decoder raise
  \<^verbatim>\<open>RecursionError\<close>, which \<^verbatim>\<open>except JSONDecodeError\<close> does not catch; the text
  \<^verbatim>\<open>NaN\<close> is accepted by the decoder and comes back as a float.
\<close>

theorem parse_response_not_json_escapes:
  "parse_response loads_sample (replicate 100000 CHR ''['') = ([], Inl RecursionError)
   \<and> parse_response loads_sample ''NaN'' = ([], Inr (PFloat NaN))"
  by (simp add: parse_response_def loads_sample_def run_defs)

text \<open>
  C9, amended. \<^verbatim>\<open>parse_response\<close> prints the diagnostic and returns \<^verbatim>\<open>None\<close>
  exactly when decoding the text raises \<^verbatim>\<open>JSONDecodeError\<close>, and then no exception
  leaves it; an exception of any other class that decoding raises leaves
  \<^verbatim>\<open>parse_response\<close> as it is, with nothing printed.
\<close>

theorem parse_response_decode_error:
  "(parse_response json_loads s = ([DecodeFailed], Inr PNone)
      \<longleftrightarrow> json_loads s = Inl JSONDecodeError)
   \<and> (json_loads s = Inl e \<and> e \<noteq> JSONDecodeError
      \<longrightarrow> parse_response json_loads s = ([], Inl e))"
  by (cases "json_loads s") (simp_all add: parse_response_def run_defs)

theorem parse_response_decode_error_witness:
  "loads_sample ''{bad'' = Inl JSONDecodeError
   \<and> parse_response loads_sample ''{bad'' = ([DecodeFailed], Inr PNone)
   \<and> loads_sample (replicate 100001 CHR ''['') = Inl RecursionError
   \<and> parse_response loads_sample (replicate 100001 CHR ''['') = ([], Inl RecursionError)"
  using parse_response_decode_error [of loads_sample "''{bad''"]
        parse_response_decode_error [of loads_sample "replicate 100001 CHR ''[''" RecursionError]
  by (simp add: loads_sample_def)



text \<open>
  C6, as the specification states it, fails: the pair \<^verbatim>\<open>KM\<close>, \<^verbatim>\<open>Miles\<close> equals the
  supported pair \<^verbatim>\<open>km\<close>, \<^verbatim>\<open>miles\<close> up to letter case, and \<^verbatim>\<open>convert\<close> reports an
  unsupported conversion for it.
\<close>

theorem convert_upper_case_unsupported:
  "lower ''KM'' = ''km'' \<and> lower ''Miles'' = ''miles''
   \<and> convert (PDict [(''tool'', PStr ''converter''), (''value'', PInt 100),
                      (''from_unit'', PStr ''KM''), (''to_unit'', PStr ''Miles'')]) =
       ([CallingTool (PStr ''converter''), Converting (PInt 100) (PStr ''KM'') (PStr ''Miles''),
         UnsupportedConversion (PStr ''KM'') (PStr ''Miles'')], Inr PNone)"
proof -
  have m: "map_of conversion_table (''KM'', ''Miles'') = None"
    by (simp add: table_lookup)
  have l: "lower ''KM'' = ''km''" "lower ''Miles'' = ''miles''"
    by (simp_all add: lower_def lower_char_def char_of_eq_iff)
  show ?thesis
    by (simp only: convert_unfold [OF sample_fields] m option.case l simp_thms)
qed

text \<open>
  C6, amended. The units are matched as they are written: for every value and every
  pair of unit strings that equals one of the six supported pairs up to letter case
  without being written in lower case throughout, \<^verbatim>\<open>convert\<close> reports an unsupported
  conversion and returns \<^verbatim>\<open>None\<close>.
\<close>

theorem convert_case_sensitive:
  assumes "py_getitem parsed ''tool'' = Inr tool"
      and "py_getitem parsed ''value'' = Inr v"
      and "py_getitem parsed ''from_unit'' = Inr (PStr f)"
      and "py_getitem parsed ''to_unit'' = Inr (PStr t)"
      and "(lower f, lower t) \<in> set (map fst conversion_table)"
      and "(f, t) \<noteq> (lower f, lower t)"
  shows "convert parsed =
           ([CallingTool tool, Converting v (PStr f) (PStr t),
             UnsupportedConversion (PStr f) (PStr t)], Inr PNone)"
  by (simp only: convert_unfold [OF assms(1-4)] table_exact_case [OF assms(6)] option.case)

theorem convert_case_sensitive_witness:
  "(lower ''Kg'', lower ''LBS'') \<in> set (map fst conversion_table)
   \<and> (''Kg'', ''LBS'') \<noteq> (lower ''Kg'', lower ''LBS'')
   \<and> convert (PDict [(''tool'', PStr ''converter''), (''value'', PInt 20),
                      (''from_unit'', PStr ''Kg''), (''to_unit'', PStr ''LBS'')]) =
       ([CallingTool (PStr ''converter''), Converting (PInt 20) (PStr ''Kg'') (PStr ''LBS''),
         UnsupportedConversion (PStr ''Kg'') (PStr ''LBS'')], Inr PNone)"
proof -
  have l: "lower ''Kg'' = ''kg''" "lower ''LBS'' = ''lbs''"
    by (simp_all add: lower_def lower_char_def char_of_eq_iff)
  have a: "(lower ''Kg'', lower ''LBS'') \<in> set (map fst conversion_table)"
    by (simp add: l conversion_table_def)
  have b: "(''Kg'', ''LBS'') \<noteq> (lower ''Kg'', lower ''LBS'')"
    by (simp add: l)
  from convert_case_sensitive [OF sample_fields a b] a b show ?thesis
    by simp
qed

text \<open>
  C7. For every operation for which the table of the specification declares an arity,
  and these are the registered operations, and every list of inputs whose length differs
  from that arity, \<^verbatim>\<open>run_algorithm\<close> prints the line with the expected and the actual
  count and returns \<^verbatim>\<open>None\<close>. The function is not called: the line of the call is not
  printed and the result is the same whatever a call would do. The operation
  \<^verbatim>\<open>gcd\<close> with the inputs \<^verbatim>\<open>[21]\<close> expects 2 and got 1.
\<close>

theorem run_algorithm_arity_mismatch:
  assumes "py_getitem parsed ''operation'' = Inr (PStr name)"
      and "py_getitem parsed ''inputs'' = Inr (PList xs)"
      and "map_of registry_arity name = Some k"
      and "length xs \<noteq> k"
  shows "run_algorithm call parsed = ([ExpectsInputs (PStr name) k (length xs)], Inr PNone)
         \<and> run_algorithm call (PDict [(''tool'', PStr ''algorithm''),
               (''operation'', PStr ''gcd''), (''inputs'', PList [PInt 21])]) =
             ([ExpectsInputs (PStr ''gcd'') 2 1], Inr PNone)
         \<and> map fst registry_arity = map fst ALGORITHM_TOOLS"
proof (intro conjI)
  from assms(3) obtain func desc where "map_of ALGORITHM_TOOLS name = Some (func, desc)"
    and "expected_inputs desc = Inr k"
    by (rule registered_arity)
  with assms show "run_algorithm call parsed =
      ([ExpectsInputs (PStr name) k (length xs)], Inr PNone)"
    unfolding run_algorithm_def by (simp add: run_algorithm_mismatch)
next
  have "map_of registry_arity ''gcd'' = Some 2"
    by (simp add: registry_arity_def)
  then obtain func desc where "map_of ALGORITHM_TOOLS ''gcd'' = Some (func, desc)"
    and "expected_inputs desc = Inr 2"
    by (rule registered_arity)
  then have "run_algorithm_in ALGORITHM_TOOLS call (PDict [(''tool'', PStr ''algorithm''),
               (''operation'', PStr ''gcd''), (''inputs'', PList [PInt 21])]) =
             ([ExpectsInputs (PStr ''gcd'') 2 (length [PInt 21])], Inr PNone)"
    by (intro run_algorithm_mismatch algorithm_fields) simp_all
  then show "run_algorithm call (PDict [(''tool'', PStr ''algorithm''),
               (''operation'', PStr ''gcd''), (''inputs'', PList [PInt 21])]) =
             ([ExpectsInputs (PStr ''gcd'') 2 1], Inr PNone)"
    unfolding run_algorithm_def by simp
next
  show "map fst registry_arity = map fst ALGORITHM_TOOLS"
    by (simp add: registry_arity_def ALGORITHM_TOOLS_def)
qed

theorem run_algorithm_arity_mismatch_witness:
  "py_getitem (PDict [(''tool'', PStr ''algorithm''), (''operation'', PStr ''sin''),
                      (''inputs'', PList [PInt 30, PInt 60])]) ''operation'' = Inr (PStr ''sin'')
   \<and> map_of registry_arity ''sin'' = Some 1
   \<and> length [PInt 30, PInt 60] \<noteq> 1
   \<and> run_algorithm call_sample
         (PDict [(''tool'', PStr ''algorithm''), (''operation'', PStr ''sin''),
                 (''inputs'', PList [PInt 30, PInt 60])]) =
       ([ExpectsInputs (PStr ''sin'') 1 2], Inr PNone)"
proof -
  have a: "map_of registry_arity ''sin'' = Some 1"
    by (simp add: registry_arity_def)
  have b: "length [PInt 30, PInt 60] \<noteq> 1"
    by simp
  from run_algorithm_arity_mismatch [OF algorithm_fields a b, of call_sample] a b
  show ?thesis
    by (simp add: algorithm_fields)
qed

text \<open>
  C4, as the specification states it, fails: the count that the invoker expects is read
  off the description text of the entry when the call is made. Two registries that hold
  the same function under the same name and differ in the description only (the second
  description has a comma in a remark) give the same request two verdicts.
\<close>

theorem arity_follows_description_text:
  "run_algorithm_in [(''factorial'', Math_factorial, ''inputs: [n]'')] call_sample
     (PDict [(''tool'', PStr ''algorithm''), (''operation'', PStr ''factorial''),
             (''inputs'', PList [PInt 5])]) =
     ([Performing (PStr ''factorial'') (PList [PInt 5])],
      Inr (PStr ''Result: factorial(5) = 120''))
   \<and> run_algorithm_in [(''factorial'', Math_factorial, ''inputs: [n] (n >= 0, integer)'')]
         call_sample
         (PDict [(''tool'', PStr ''algorithm''), (''operation'', PStr ''factorial''),
                 (''inputs'', PList [PInt 5])]) =
       ([ExpectsInputs (PStr ''factorial'') 2 1], Inr PNone)"
proof
  have e: "expected_inputs ''inputs: [n]'' = Inr (length [PInt 5])"
    by (simp add: expected_inputs_descriptions)
  have m: "map_of [(''factorial'', Math_factorial, ''inputs: [n]'')] ''factorial''
             = Some (Math_factorial, ''inputs: [n]'')"
    by simp
  show "run_algorithm_in [(''factorial'', Math_factorial, ''inputs: [n]'')] call_sample
     (PDict [(''tool'', PStr ''algorithm''), (''operation'', PStr ''factorial''),
             (''inputs'', PList [PInt 5])]) =
     ([Performing (PStr ''factorial'') (PList [PInt 5])],
      Inr (PStr ''Result: factorial(5) = 120''))"
    unfolding run_algorithm_match [OF algorithm_fields m e]
    by (simp add: call_sample_def py_str_def str_int_def digit_def)
next
  have e: "expected_inputs ''inputs: [n] (n >= 0, integer)'' = Inr 2"
    by (simp add: expected_inputs_def rstrip_def)
  have m: "map_of [(''factorial'', Math_factorial, ''inputs: [n] (n >= 0, integer)'')]
             ''factorial'' = Some (Math_factorial, ''inputs: [n] (n >= 0, integer)'')"
    by simp
  have "run_algorithm_in [(''factorial'', Math_factorial, ''inputs: [n] (n >= 0, integer)'')]
         call_sample
         (PDict [(''tool'', PStr ''algorithm''), (''operation'', PStr ''factorial''),
                 (''inputs'', PList [PInt 5])]) =
       ([ExpectsInputs (PStr ''factorial'') 2 (length [PInt 5])], Inr PNone)"
    by (rule run_algorithm_mismatch [OF algorithm_fields m e]) simp
  then show "run_algorithm_in
         [(''factorial'', Math_factorial, ''inputs: [n] (n >= 0, integer)'')]
         call_sample
         (PDict [(''tool'', PStr ''algorithm''), (''operation'', PStr ''factorial''),
                 (''inputs'', PList [PInt 5])]) =
       ([ExpectsInputs (PStr ''factorial'') 2 1], Inr PNone)"
    by simp
qed

text \<open>
  C4, amended. An entry of the registry is a function and a description; for every
  registered operation the count that \<^verbatim>\<open>run_algorithm\<close> expects is computed from the
  description when the call is made, as the number of commas plus one, and a list of
  inputs is refused exactly when its length differs from it. For each registered
  operation this count is the arity that the table of the specification declares.
\<close>

theorem arity_from_description:
  assumes "py_getitem parsed ''operation'' = Inr (PStr name)"
      and "py_getitem parsed ''inputs'' = Inr (PList xs)"
      and "map_of ALGORITHM_TOOLS name = Some (func, desc)"
  shows "expected_inputs desc = Inr (count_list desc CHR '','' + 1)
         \<and> map_of registry_arity name = Some (count_list desc CHR '','' + 1)
         \<and> (run_algorithm call parsed =
               ([ExpectsInputs (PStr name) (count_list desc CHR '','' + 1) (length xs)],
                Inr PNone)
              \<longleftrightarrow> length xs \<noteq> count_list desc CHR '','' + 1)"
proof (intro conjI)
  show e: "expected_inputs desc = Inr (count_list desc CHR '','' + 1)"
    by (rule registered_commas [OF assms(3)])
  show "map_of registry_arity name = Some (count_list desc CHR '','' + 1)"
    by (rule registered_commas [OF assms(3)])
  show "run_algorithm call parsed =
          ([ExpectsInputs (PStr name) (count_list desc CHR '','' + 1) (length xs)], Inr PNone)
        \<longleftrightarrow> length xs \<noteq> count_list desc CHR '','' + 1"
  proof (cases "length xs = count_list desc CHR '','' + 1")
    case True
    with e have "expected_inputs desc = Inr (length xs)"
      by simp
    from run_algorithm_match [OF assms e [folded True], of call] True
    show ?thesis
      unfolding run_algorithm_def by (simp split: sum.splits)
  next
    case False
    with run_algorithm_mismatch [OF assms e False, of call] show ?thesis
      unfolding run_algorithm_def by simp
  qed
qed

theorem arity_from_description_witness:
  "map_of ALGORITHM_TOOLS ''nth_root'' = Some (Lambda_nth_root, ''inputs: [n, root]'')
   \<and> expected_inputs ''inputs: [n, root]'' = Inr 2
   \<and> map_of registry_arity ''nth_root'' = Some 2
   \<and> run_algorithm call_sample
         (PDict [(''tool'', PStr ''algorithm''), (''operation'', PStr ''nth_root''),
                 (''inputs'', PList [PInt 27])]) =
       ([ExpectsInputs (PStr ''nth_root'') 2 1], Inr PNone)"
proof -
  have m: "map_of ALGORITHM_TOOLS ''nth_root'' = Some (Lambda_nth_root, ''inputs: [n, root]'')"
    by (simp add: ALGORITHM_TOOLS_def)
  have "expected_inputs ''inputs: [n, root]'' = Inr (count_list ''inputs: [n, root]'' CHR '','' + 1)
         \<and> map_of registry_arity ''nth_root'' = Some (count_list ''inputs: [n, root]'' CHR '','' + 1)
         \<and> (run_algorithm call_sample
               (PDict [(''tool'', PStr ''algorithm''), (''operation'', PStr ''nth_root''),
                       (''inputs'', PList [PInt 27])]) =
               ([ExpectsInputs (PStr ''nth_root'') (count_list ''inputs: [n, root]'' CHR '','' + 1)
                   (length [PInt 27])], Inr PNone)
              \<longleftrightarrow> length [PInt 27] \<noteq> count_list ''inputs: [n, root]'' CHR '','' + 1)"
    by (rule arity_from_description [OF algorithm_fields m])
  with m show ?thesis
    by simp
qed

text \<open>
  C2, as the specification states it, fails: a request whose tag is none of the four
  strings is skipped in silence. No branch of the dispatch takes it, nothing is printed,
  no failure is produced, and the result stays the empty string it started as.
\<close>

theorem dispatch_unknown_tag_silent:
  "dispatch eval_sample call_sample (PDict [(''tool'', PStr ''bogus'')]) = ([], Inr (PStr []))"
  by (simp add: dispatch_def py_getitem_def py_lower_def lower_def lower_char_def
        and_then_simps ret_def)

text \<open>
  C2, amended. For every parsed request whose tag is a string that, in lower case, is
  none of \<^verbatim>\<open>none\<close>, \<^verbatim>\<open>calculator\<close>, \<^verbatim>\<open>converter\<close> and \<^verbatim>\<open>algorithm\<close>, the dispatch
  prints nothing, calls no handler and leaves the result the empty string.
\<close>

theorem dispatch_unknown_tag:
  assumes "py_getitem parsed ''tool'' = Inr (PStr tag)"
      and "lower tag \<notin> {''none'', ''calculator'', ''converter'', ''algorithm''}"
  shows "dispatch simple_eval call parsed = ([], Inr (PStr []))"
proof -
  from assms(1) obtain kvs where "parsed = PDict kvs"
    by (rule getitem_dict)
  then have a: "parsed \<noteq> PNone"
    by simp
  from assms(2) lower_none have b: "tag \<noteq> ''none''"
    by auto
  from assms(2) have c: "lower tag \<noteq> ''calculator''" "lower tag \<noteq> ''converter''"
    "lower tag \<noteq> ''algorithm''"
    by simp_all
  show ?thesis
    by (simp add: dispatch_def a assms(1) and_then_simps b py_lower_def c ret_def)
qed

theorem dispatch_unknown_tag_witness:
  "py_getitem (PDict [(''tool'', PStr ''Plotter''), (''expression'', PStr ''1 + 1'')]) ''tool''
     = Inr (PStr ''Plotter'')
   \<and> lower ''Plotter'' \<notin> {''none'', ''calculator'', ''converter'', ''algorithm''}
   \<and> dispatch eval_sample call_sample
         (PDict [(''tool'', PStr ''Plotter''), (''expression'', PStr ''1 + 1'')]) =
       ([], Inr (PStr []))"
proof -
  have a: "py_getitem (PDict [(''tool'', PStr ''Plotter''), (''expression'', PStr ''1 + 1'')])
             ''tool'' = Inr (PStr ''Plotter'')"
    by (simp add: py_getitem_def)
  have b: "lower ''Plotter'' \<notin> {''none'', ''calculator'', ''converter'', ''algorithm''}"
    by (simp add: lower_def lower_char_def char_of_eq_iff)
  from dispatch_unknown_tag [OF a b, of eval_sample call_sample] a b show ?thesis
    by simp
qed

text \<open>
  C10, as the specification states it, fails for \<^verbatim>\<open>null\<close>: the value decoded from it is
  \<^verbatim>\<open>None\<close>, the very value that stands for a parse failure, and the dispatch is skipped
  for it as for a failure. It also fails for a valid text that the decoder cannot
  decode: 100000 nested arrays raise \<^verbatim>\<open>RecursionError\<close>.
\<close>

theorem parse_response_null:
  "parse_response loads_sample ''null'' = ([], Inr PNone)
   \<and> parse_response loads_sample ''{bad'' = ([DecodeFailed], Inr PNone)
   \<and> handle_reply loads_sample eval_sample call_sample ''null'' = ([], Inr (PStr []))
   \<and> parse_response loads_sample (replicate 100000 CHR ''['' @ replicate 100000 CHR '']'')
       = ([], Inl RecursionError)"
  by (simp add: parse_response_def handle_reply_def dispatch_def loads_sample_def run_defs
        deep_nesting)

text \<open>
  C10, amended. For every text that the decoder decodes, whatever the type of the value,
  \<^verbatim>\<open>parse_response\<close> returns the value and prints nothing: it checks no shape. When the
  value is \<^verbatim>\<open>None\<close> the dispatch is skipped; when it is any other value that is not a
  dictionary, it reaches the dispatch unchecked, and the subscript \<^verbatim>\<open>parsed['tool']\<close>
  raises \<^verbatim>\<open>TypeError\<close>.
\<close>

theorem parse_response_decoded:
  assumes "json_loads s = Inr v"
  shows "parse_response json_loads s = ([], Inr v)
         \<and> (v = PNone \<longrightarrow>
               handle_reply json_loads simple_eval call s = ([], Inr (PStr [])))
         \<and> (v \<noteq> PNone \<and> (\<forall>kvs. v \<noteq> PDict kvs) \<longrightarrow>
               handle_reply json_loads simple_eval call s = ([], Inl TypeError))"
proof -
  have p: "parse_response json_loads s = ret v"
    using assms by (simp add: parse_response_def)
  show ?thesis
    by (simp add: handle_reply_def p and_then_simps dispatch_def getitem_not_dict)
      (simp add: ret_def)
qed

theorem parse_response_decoded_witness:
  "loads_sample ''[1, 2]'' = Inr (PList [PInt 1, PInt 2])
   \<and> parse_response loads_sample ''[1, 2]'' = ([], Inr (PList [PInt 1, PInt 2]))
   \<and> handle_reply loads_sample eval_sample call_sample ''[1, 2]'' = ([], Inl TypeError)
   \<and> loads_sample ''5'' = Inr (PInt 5)
   \<and> handle_reply loads_sample eval_sample call_sample ''5'' = ([], Inl TypeError)"
proof -
  have a: "loads_sample ''[1, 2]'' = Inr (PList [PInt 1, PInt 2])"
    and b: "loads_sample ''5'' = Inr (PInt 5)"
    by (simp_all add: loads_sample_def)
  from parse_response_decoded [of loads_sample "''[1, 2]''" "PList [PInt 1, PInt 2]"
         eval_sample call_sample]
       parse_response_decoded [of loads_sample "''5''" "PInt 5" eval_sample call_sample] a b
  show ?thesis
    by simp
qed







end
